theory Spec2Isabelle
  imports Main
begin

section \<open>Data model of AliasTimer.tsx\<close>

text \<open>
  The component keeps two pieces of React state: the timer (interface TimerState) and the
  three configurable durations (interface TimerSettings). A JavaScript number that holds a
  count of seconds is modelled as the integer it equals; every value the component ever
  stores comes from an integer literal, from parseInt, or from subtracting one. The
  subtraction is the one of double-precision numbers and rounds its result, see
  roundDouble below.
\<close>

datatype Phase = Turn | Guess

datatype Mode = Regular | Special

record TimerState =
  isRunning :: bool
  currentTime :: int
  phase :: Phase
  isFinished :: bool
  mode :: Mode
  currentWord :: int

record TimerSettings =
  turnTime :: int
  guessTime :: int
  specialTurnTime :: int

text \<open>The arguments of the two useState calls.\<close>

definition initialSettings :: TimerSettings where
  "initialSettings = \<lparr>turnTime = 60, guessTime = 30, specialTurnTime = 45\<rparr>"

definition initialTimer :: TimerState where
  "initialTimer = \<lparr>isRunning = False, currentTime = 60, phase = Turn, isFinished = False,
     mode = Regular, currentWord = 1\<rparr>"

section \<open>Side effects of the tick handler\<close>

text \<open>
  The tick handler calls playBeep(frequency, duration), playBuzzer() and toast(...). Each
  call is recorded, in the order the handler makes it, as one element of a list. The three
  toasts are told apart by a constructor; the one announcing the guess phase carries the
  guessTime it interpolates into its description.
\<close>

datatype Notification = TurnEndedSpecial | GuessPhaseStarting int | TurnEndedRegular

datatype Intent = PlayBeep int int | PlayBuzzer | Toast Notification

fun isCue :: "Intent \<Rightarrow> bool" where
  "isCue (PlayBeep f d) = True"
| "isCue PlayBuzzer = True"
| "isCue (Toast n) = False"

definition cuesOf :: "Intent list \<Rightarrow> Intent list" where
  "cuesOf xs = filter isCue xs"

section \<open>The tick handler\<close>

text \<open>
  A JavaScript number is a double with 53 bits of significand. An integer of absolute
  value up to 2^53 is a number as it is. A larger one is rounded to the nearest multiple
  of 2^e that has 53 significant bits, a tie going to the even significand; bitLength
  counts the bits of the absolute value, and e is what exceeds 53. (Beyond 2^1024, where
  JavaScript has Infinity, nothing is claimed.)
\<close>

function bitLength :: "int \<Rightarrow> nat" where
  "bitLength n = (if n \<le> 0 then 0 else Suc (bitLength (n div 2)))"
  by pat_completeness auto
termination
  by (relation "measure nat") auto

declare bitLength.simps [simp del]

definition roundDouble :: "int \<Rightarrow> int" where
  "roundDouble n =
     (if \<bar>n\<bar> \<le> 2 ^ 53 then n
      else let e = bitLength \<bar>n\<bar> - 53;
               q = \<bar>n\<bar> div 2 ^ e;
               r = \<bar>n\<bar> mod 2 ^ e;
               q' = (if 2 * r < 2 ^ e \<or> (2 * r = 2 ^ e \<and> even q) then q else q + 1)
           in sgn n * (q' * 2 ^ e))"

text \<open>
  The function passed to setTimer inside the setInterval callback: prev is the timer, the
  settings are those of the render that armed the interval. prev.currentTime - 1 is the
  exact difference, rounded.
\<close>

definition tick :: "TimerSettings \<Rightarrow> TimerState \<Rightarrow> TimerState \<times> Intent list" where
  "tick settings prev =
     (let newTime = roundDouble (currentTime prev - 1);
          beeps = (if newTime \<le> 5 \<and> newTime > 0 then [PlayBeep 1000 150] else [])
      in if newTime = 0 then
           (if mode prev = Special then
              (prev\<lparr>currentTime := specialTurnTime settings, isRunning := False,
                    isFinished := True\<rparr>,
               beeps @ [PlayBuzzer, Toast TurnEndedSpecial])
            else if phase prev = Turn then
              (prev\<lparr>currentTime := guessTime settings, phase := Guess\<rparr>,
               beeps @ [PlayBuzzer, Toast (GuessPhaseStarting (guessTime settings))])
            else
              (prev\<lparr>currentTime := turnTime settings, phase := Turn, isRunning := False,
                    isFinished := True\<rparr>,
               beeps @ [PlayBuzzer, Toast TurnEndedRegular]))
         else (prev\<lparr>currentTime := newTime\<rparr>, beeps))"

text \<open>
  The effect arms the interval only while the timer is running with time left; otherwise
  it clears it, and a second passes without any change.
\<close>

definition clockTick :: "TimerSettings \<Rightarrow> TimerState \<Rightarrow> TimerState \<times> Intent list" where
  "clockTick settings timer =
     (if isRunning timer \<and> currentTime timer > 0 then tick settings timer else (timer, []))"

primrec ticks :: "nat \<Rightarrow> TimerSettings \<Rightarrow> TimerState \<Rightarrow> TimerState" where
  "ticks 0 settings timer = timer"
| "ticks (Suc n) settings timer = ticks n settings (fst (clockTick settings timer))"

section \<open>The command handlers\<close>

definition startTimer :: "TimerState \<Rightarrow> TimerState" where
  "startTimer prev = prev\<lparr>isRunning := True, isFinished := False\<rparr>"

definition pauseTimer :: "TimerState \<Rightarrow> TimerState" where
  "pauseTimer prev = prev\<lparr>isRunning := False\<rparr>"

definition resetTimer :: "TimerSettings \<Rightarrow> TimerState \<Rightarrow> TimerState" where
  "resetTimer settings timer =
     (let newTime = (if mode timer = Special then specialTurnTime settings
                     else turnTime settings)
      in timer\<lparr>isRunning := False, currentTime := newTime, phase := Turn,
               isFinished := False\<rparr>)"

definition nextWord :: "TimerSettings \<Rightarrow> TimerState \<Rightarrow> TimerState" where
  "nextWord settings timer =
     (let newWord = (if currentWord timer < 5 then currentWord timer + 1 else 1)
      in timer\<lparr>isRunning := False, currentTime := specialTurnTime settings, phase := Turn,
               isFinished := False, currentWord := newWord\<rparr>)"

text \<open>
  updateTimerToSettings reads the mode and the phase from timer, the state of the render
  whose button was clicked, and writes onto prev, the state its updater receives. The two
  are the same state unless an update, such as the one of a tick, is still waiting to be
  rendered when the click comes.
\<close>

definition updateTimerToSettings ::
  "TimerSettings \<Rightarrow> TimerState \<Rightarrow> TimerState \<Rightarrow> TimerState" where
  "updateTimerToSettings settings timer prev =
     (let newTime = (if mode timer = Special then specialTurnTime settings
                     else (if phase timer = Turn then turnTime settings
                           else guessTime settings))
      in prev\<lparr>currentTime := newTime, isRunning := False\<rparr>)"

definition toggleMode :: "TimerSettings \<Rightarrow> TimerState \<Rightarrow> TimerState" where
  "toggleMode settings timer =
     (let newMode = (if mode timer = Regular then Special else Regular);
          newTime = (if newMode = Special then specialTurnTime settings
                     else turnTime settings)
      in timer\<lparr>mode := newMode, currentTime := newTime, phase := Turn, isRunning := False,
               isFinished := False, currentWord := 1\<rparr>)"

text \<open>
  The button that calls nextWord is part of the rendered tree only in special mode
  (the conjunction timer.mode === 'special' && <Button onClick={nextWord} ...>), so a
  click on it is possible only there.
\<close>

definition nextWordButtonShown :: "TimerState \<Rightarrow> bool" where
  "nextWordButtonShown timer = (mode timer = Special)"

definition clickNextWord :: "TimerSettings \<Rightarrow> TimerState \<Rightarrow> TimerState option" where
  "clickNextWord settings timer =
     (if nextWordButtonShown timer then Some (nextWord settings timer) else None)"

section \<open>The settings inputs\<close>

text \<open>
  parseInt with no radix, on a string of one-byte characters: leading white space is
  skipped, one sign is read, a 0x or 0X prefix selects radix 16, and the longest prefix of
  digits of the radix is the number, rounded to a double as every number is. None stands
  for NaN, the result when there is no digit.
\<close>

definition isWhiteSpace :: "char \<Rightarrow> bool" where
  "isWhiteSpace c = ((of_char c :: nat) \<in> {9, 10, 11, 12, 13, 32, 160})"

definition digitValue :: "char \<Rightarrow> nat option" where
  "digitValue c =
     (let n = (of_char c :: nat)
      in if 48 \<le> n \<and> n \<le> 57 then Some (n - 48)
         else if 97 \<le> n \<and> n \<le> 122 then Some (n - 87)
         else if 65 \<le> n \<and> n \<le> 90 then Some (n - 55)
         else None)"

definition isRadixDigit :: "nat \<Rightarrow> char \<Rightarrow> bool" where
  "isRadixDigit r c = (case digitValue c of None \<Rightarrow> False | Some d \<Rightarrow> d < r)"

definition digitsValue :: "nat \<Rightarrow> string \<Rightarrow> nat" where
  "digitsValue r z =
     foldl (\<lambda>acc c. acc * r + (case digitValue c of None \<Rightarrow> 0 | Some d \<Rightarrow> d)) 0 z"

definition parseInt :: "string \<Rightarrow> int option" where
  "parseInt str =
     (let s1 = dropWhile isWhiteSpace str;
          sign = (if s1 \<noteq> [] \<and> hd s1 = CHR ''-'' then - 1 else (1::int));
          s2 = (if s1 \<noteq> [] \<and> (hd s1 = CHR ''+'' \<or> hd s1 = CHR ''-'') then tl s1 else s1);
          hex = (2 \<le> length s2 \<and> (take 2 s2 = ''0x'' \<or> take 2 s2 = ''0X''));
          r = (if hex then 16 else 10);
          s3 = (if hex then drop 2 s2 else s2);
          z = takeWhile (isRadixDigit r) s3
      in if z = [] then None else Some (roundDouble (sign * int (digitsValue r z))))"

text \<open>
  The expression parseInt(e.target.value) || d: NaN and zero are falsy, so they give the
  default d; every other integer is kept.
\<close>

definition parseOr :: "string \<Rightarrow> int \<Rightarrow> int" where
  "parseOr v d = (case parseInt v of None \<Rightarrow> d | Some n \<Rightarrow> if n = 0 then d else n)"

text \<open>The three onChange handlers; v is e.target.value.\<close>

definition onChangeTurnTime :: "string \<Rightarrow> TimerSettings \<Rightarrow> TimerSettings" where
  "onChangeTurnTime v prev = prev\<lparr>turnTime := parseOr v 60\<rparr>"

definition onChangeGuessTime :: "string \<Rightarrow> TimerSettings \<Rightarrow> TimerSettings" where
  "onChangeGuessTime v prev = prev\<lparr>guessTime := parseOr v 30\<rparr>"

definition onChangeSpecialTurnTime :: "string \<Rightarrow> TimerSettings \<Rightarrow> TimerSettings" where
  "onChangeSpecialTurnTime v prev = prev\<lparr>specialTurnTime := parseOr v 45\<rparr>"

text \<open>
  The min and max attributes of the three inputs: the ranges the component declares for
  the durations.
\<close>

definition inDeclaredBounds :: "TimerSettings \<Rightarrow> bool" where
  "inDeclaredBounds s =
     (10 \<le> turnTime s \<and> turnTime s \<le> 300 \<and> 5 \<le> guessTime s \<and> guessTime s \<le> 120 \<and>
      10 \<le> specialTurnTime s \<and> specialTurnTime s \<le> 300)"

section \<open>The component as a whole\<close>

text \<open>
  Everything that can happen to the pair of settings and timer: a second passing, a click
  on a button, an edit of a settings input. A click runs the handler of the current
  render. A click on the next-word button happens only where the button is rendered;
  elsewhere the event leaves the pair as it is. UpdateTickPendingEv is a click on the
  update button that comes after a tick has queued its update and before the component
  has rendered it: the handler is the one of the render before the tick, its updater
  runs on the state after the tick. The other handlers read from their render only the
  mode and currentWord, which no tick changes, so for them a pending tick is the tick
  followed by the click.
\<close>

datatype Event =
    TickEv | StartEv | PauseEv | ResetEv | NextWordEv | ToggleModeEv | UpdateEv
  | UpdateTickPendingEv
  | EditTurnTime string | EditGuessTime string | EditSpecialTurnTime string

fun step :: "TimerSettings \<times> TimerState \<Rightarrow> Event \<Rightarrow> TimerSettings \<times> TimerState" where
  "step (st, t) TickEv = (st, fst (clockTick st t))"
| "step (st, t) StartEv = (st, startTimer t)"
| "step (st, t) PauseEv = (st, pauseTimer t)"
| "step (st, t) ResetEv = (st, resetTimer st t)"
| "step (st, t) NextWordEv =
     (case clickNextWord st t of None \<Rightarrow> (st, t) | Some t' \<Rightarrow> (st, t'))"
| "step (st, t) ToggleModeEv = (st, toggleMode st t)"
| "step (st, t) UpdateEv = (st, updateTimerToSettings st t t)"
| "step (st, t) UpdateTickPendingEv =
     (st, updateTimerToSettings st t (fst (clockTick st t)))"
| "step (st, t) (EditTurnTime v) = (onChangeTurnTime v st, t)"
| "step (st, t) (EditGuessTime v) = (onChangeGuessTime v st, t)"
| "step (st, t) (EditSpecialTurnTime v) = (onChangeSpecialTurnTime v st, t)"

definition run :: "Event list \<Rightarrow> TimerSettings \<times> TimerState" where
  "run evs = foldl step (initialSettings, initialTimer) evs"

text \<open>The three properties the timer is meant to keep.\<close>

definition timerInv :: "TimerState \<Rightarrow> bool" where
  "timerInv t =
     (0 \<le> currentTime t \<and> \<not> (isRunning t \<and> isFinished t) \<and>
      1 \<le> currentWord t \<and> currentWord t \<le> 5)"

definition settingsNonneg :: "TimerSettings \<Rightarrow> bool" where
  "settingsNonneg s = (0 \<le> turnTime s \<and> 0 \<le> guessTime s \<and> 0 \<le> specialTurnTime s)"

text \<open>An event that leaves the settings without a negative duration.\<close>

fun nonnegEdit :: "Event \<Rightarrow> bool" where
  "nonnegEdit (EditTurnTime v) = (0 \<le> parseOr v 60)"
| "nonnegEdit (EditGuessTime v) = (0 \<le> parseOr v 30)"
| "nonnegEdit (EditSpecialTurnTime v) = (0 \<le> parseOr v 45)"
| "nonnegEdit e = True"

text \<open>An event that leaves the settings inside the bounds their inputs declare.\<close>

fun inBoundsEdit :: "Event \<Rightarrow> bool" where
  "inBoundsEdit (EditTurnTime v) = (10 \<le> parseOr v 60 \<and> parseOr v 60 \<le> 300)"
| "inBoundsEdit (EditGuessTime v) = (5 \<le> parseOr v 30 \<and> parseOr v 30 \<le> 120)"
| "inBoundsEdit (EditSpecialTurnTime v) = (10 \<le> parseOr v 45 \<and> parseOr v 45 \<le> 300)"
| "inBoundsEdit e = True"

section \<open>Properties of the tick handler\<close>

lemma roundDouble_exact: "\<bar>n\<bar> \<le> 2 ^ 53 \<Longrightarrow> roundDouble n = n"
  by (simp add: roundDouble_def)

lemma roundDouble_nonneg: "0 \<le> n \<Longrightarrow> 0 \<le> roundDouble n"
  by (auto simp add: roundDouble_def Let_def sgn_if zero_le_mult_iff pos_imp_zdiv_nonneg_iff)

lemma roundDouble_below_2_54: "roundDouble 18014398509481983 = 18014398509481984"
  by code_simp

lemma roundDouble_at_2_54: "roundDouble 18014398509481984 = 18014398509481984"
  by code_simp

lemma parseInt_2_54: "parseInt ''18014398509481984'' = Some 18014398509481984"
  by (simp add: parseInt_def isWhiteSpace_def isRadixDigit_def digitValue_def digitsValue_def
      roundDouble_at_2_54)

lemma tick_mode: "mode (fst (tick st s)) = mode s"
  by (simp add: tick_def Let_def)

lemma tick_currentWord: "currentWord (fst (tick st s)) = currentWord s"
  by (simp add: tick_def Let_def)

lemma ticks_snoc: "ticks (Suc n) st s = fst (clockTick st (ticks n st s))"
  by (induction n arbitrary: s) simp_all

lemma ticks_countdown:
  "isRunning s \<Longrightarrow> currentTime s = int n + c \<Longrightarrow> 0 < c \<Longrightarrow> currentTime s \<le> 2 ^ 53 \<Longrightarrow>
     ticks n st s = s\<lparr>currentTime := c\<rparr>"
proof (induction n arbitrary: s)
  case 0
  then show ?case by simp
next
  case (Suc n)
  let ?s' = "s\<lparr>currentTime := int n + c\<rparr>"
  from Suc.prems have "roundDouble (currentTime s - 1) = int n + c"
    by (simp add: roundDouble_exact)
  with Suc.prems have "fst (clockTick st s) = ?s'"
    by (simp add: clockTick_def tick_def Let_def)
  moreover from Suc.prems have "ticks n st ?s' = ?s'\<lparr>currentTime := c\<rparr>"
    by (intro Suc.IH) simp_all
  ultimately show ?case by simp
qed

text \<open>
  C1. In regular mode, in the turn phase, a tick of the running timer from one second left
  goes straight on to the guess phase: the time left becomes guessTime, the phase becomes
  Guess, every other field is kept, so the timer is still running; the buzzer sounds and
  the guess phase is announced. With turnTime 60 and guessTime 30, pressing start in the
  turn phase with 60 seconds left and letting 60 seconds pass ends in the guess phase with
  30 seconds left, running and not finished.
\<close>

theorem tick_turn_to_guess:
  "(mode s = Regular \<and> phase s = Turn \<and> isRunning s \<and> currentTime s = 1 \<longrightarrow>
      clockTick st s = tick st s \<and>
      tick st s = (s\<lparr>currentTime := guessTime st, phase := Guess\<rparr>,
                   [PlayBuzzer, Toast (GuessPhaseStarting (guessTime st))]) \<and>
      currentTime (fst (tick st s)) = guessTime st \<and> phase (fst (tick st s)) = Guess \<and>
      isRunning (fst (tick st s))) \<and>
   (turnTime st' = 60 \<and> guessTime st' = 30 \<and> mode s0 = Regular \<and> phase s0 = Turn \<and>
    currentTime s0 = turnTime st' \<longrightarrow>
      ticks 60 st' (startTimer s0) =
        s0\<lparr>isRunning := True, currentTime := 30, phase := Guess, isFinished := False\<rparr>)"
proof (intro conjI impI)
  assume a: "mode s = Regular \<and> phase s = Turn \<and> isRunning s \<and> currentTime s = 1"
  then show "clockTick st s = tick st s"
    by (simp add: clockTick_def)
  from a show t: "tick st s = (s\<lparr>currentTime := guessTime st, phase := Guess\<rparr>,
      [PlayBuzzer, Toast (GuessPhaseStarting (guessTime st))])"
    by (simp add: tick_def roundDouble_exact)
  from a t show "currentTime (fst (tick st s)) = guessTime st"
    and "phase (fst (tick st s)) = Guess" and "isRunning (fst (tick st s))"
    by simp_all
next
  assume b: "turnTime st' = 60 \<and> guessTime st' = 30 \<and> mode s0 = Regular \<and> phase s0 = Turn \<and>
    currentTime s0 = turnTime st'"
  let ?r = "startTimer s0"
  have "isRunning ?r" and "currentTime ?r = int 59 + 1" and "currentTime ?r \<le> 2 ^ 53"
    using b by (simp_all add: startTimer_def)
  then have "ticks 59 st' ?r = ?r\<lparr>currentTime := 1\<rparr>"
    using ticks_countdown [of ?r 59 1 st'] by simp
  then have "ticks (Suc 59) st' ?r = fst (clockTick st' (?r\<lparr>currentTime := 1\<rparr>))"
    by (simp only: ticks_snoc)
  also have "\<dots> = s0\<lparr>isRunning := True, currentTime := 30, phase := Guess, isFinished := False\<rparr>"
    using b by (simp add: clockTick_def tick_def startTimer_def roundDouble_exact)
  finally show "ticks 60 st' (startTimer s0) =
      s0\<lparr>isRunning := True, currentTime := 30, phase := Guess, isFinished := False\<rparr>"
    by simp
qed

theorem tick_turn_to_guess_witness:
  "tick initialSettings (initialTimer\<lparr>isRunning := True, currentTime := 1\<rparr>) =
     (\<lparr>isRunning = True, currentTime = 30, phase = Guess, isFinished = False,
       mode = Regular, currentWord = 1\<rparr>, [PlayBuzzer, Toast (GuessPhaseStarting 30)]) \<and>
   ticks 60 initialSettings (startTimer initialTimer) =
     \<lparr>isRunning = True, currentTime = 30, phase = Guess, isFinished = False,
      mode = Regular, currentWord = 1\<rparr>"
  using tick_turn_to_guess [of "initialTimer\<lparr>isRunning := True, currentTime := 1\<rparr>"
      initialSettings initialSettings initialTimer]
  by (simp add: initialSettings_def initialTimer_def)

text \<open>
  C2. A tick of the running timer from one second left ends the turn in two cases, the
  mode being looked at before the phase. In special mode the time left becomes
  specialTurnTime, the timer stops and is finished, and nothing else changes, so phase and
  currentWord are kept. In regular mode in the guess phase the time left becomes turnTime,
  the phase becomes Turn, the timer stops and is finished.
\<close>

theorem tick_turn_ends:
  "isRunning s \<and> currentTime s = 1 \<longrightarrow>
     clockTick st s = tick st s \<and>
     (mode s = Special \<longrightarrow>
        tick st s = (s\<lparr>currentTime := specialTurnTime st, isRunning := False,
                        isFinished := True\<rparr>, [PlayBuzzer, Toast TurnEndedSpecial]) \<and>
        phase (fst (tick st s)) = phase s \<and> currentWord (fst (tick st s)) = currentWord s) \<and>
     (mode s = Regular \<and> phase s = Guess \<longrightarrow>
        tick st s = (s\<lparr>currentTime := turnTime st, phase := Turn, isRunning := False,
                        isFinished := True\<rparr>, [PlayBuzzer, Toast TurnEndedRegular]))"
  by (simp add: clockTick_def tick_def roundDouble_exact)

theorem tick_turn_ends_witness:
  "tick initialSettings
     \<lparr>isRunning = True, currentTime = 1, phase = Guess, isFinished = False,
      mode = Special, currentWord = 3\<rparr> =
     (\<lparr>isRunning = False, currentTime = 45, phase = Guess, isFinished = True,
       mode = Special, currentWord = 3\<rparr>, [PlayBuzzer, Toast TurnEndedSpecial]) \<and>
   tick initialSettings
     \<lparr>isRunning = True, currentTime = 1, phase = Guess, isFinished = False,
      mode = Regular, currentWord = 1\<rparr> =
     (\<lparr>isRunning = False, currentTime = 60, phase = Turn, isFinished = True,
       mode = Regular, currentWord = 1\<rparr>, [PlayBuzzer, Toast TurnEndedRegular])"
  using tick_turn_ends [of "\<lparr>isRunning = True, currentTime = 1, phase = Guess,
      isFinished = False, mode = Special, currentWord = 3\<rparr>" initialSettings]
    tick_turn_ends [of "\<lparr>isRunning = True, currentTime = 1, phase = Guess,
      isFinished = False, mode = Regular, currentWord = 1\<rparr>" initialSettings]
  by (simp add: initialSettings_def)

text \<open>
  The cues of a tick, whatever the time left, follow the newTime the handler computes: one
  warning beep (1000 Hz, 150 ms) when it is 1 to 5, one buzzer when it is 0, none
  otherwise. As long as the time left is at most 2^53 the newTime is exactly one less than
  the time left, and when it is above 5 the tick only stores it and has no side effect.
\<close>

lemma tick_cues_of_newTime:
  "cuesOf (snd (tick st s)) =
     (if 1 \<le> roundDouble (currentTime s - 1) \<and> roundDouble (currentTime s - 1) \<le> 5
      then [PlayBeep 1000 150]
      else if roundDouble (currentTime s - 1) = 0 then [PlayBuzzer]
      else [])"
  by (simp add: tick_def cuesOf_def Let_def)

lemma tick_cues_exact_range:
  assumes "isRunning s" and "0 < currentTime s" and "currentTime s \<le> 2 ^ 53"
  shows "clockTick st s = tick st s"
    and "cuesOf (snd (tick st s)) =
       (if 1 \<le> currentTime s - 1 \<and> currentTime s - 1 \<le> 5 then [PlayBeep 1000 150]
        else if currentTime s - 1 = 0 then [PlayBuzzer]
        else [])"
    and "5 < currentTime s - 1 \<Longrightarrow> tick st s = (s\<lparr>currentTime := currentTime s - 1\<rparr>, [])"
proof -
  from assms have r: "roundDouble (currentTime s - 1) = currentTime s - 1"
    by (simp add: roundDouble_exact)
  from assms show "clockTick st s = tick st s"
    by (simp add: clockTick_def)
  from r show "cuesOf (snd (tick st s)) =
       (if 1 \<le> currentTime s - 1 \<and> currentTime s - 1 \<le> 5 then [PlayBeep 1000 150]
        else if currentTime s - 1 = 0 then [PlayBuzzer]
        else [])"
    by (simp only: tick_cues_of_newTime)
  show "tick st s = (s\<lparr>currentTime := currentTime s - 1\<rparr>, [])"
    if h: "5 < currentTime s - 1"
  proof -
    from h r have "roundDouble (currentTime s - 1) \<noteq> 0"
      and "\<not> roundDouble (currentTime s - 1) \<le> 5"
      by simp_all
    then show ?thesis
      by (simp add: tick_def Let_def r)
  qed
qed

text \<open>
  With settings inside the bounds the inputs declare, the time left never exceeds 300 on
  the way from the initial state, so every tick there is in the exact range.
\<close>

lemma timeBound_tick:
  assumes "inDeclaredBounds st" and "currentTime t \<le> 300"
  shows "currentTime (fst (clockTick st t)) \<le> 300"
proof (cases "isRunning t \<and> 0 < currentTime t")
  case True
  with assms have "roundDouble (currentTime t - 1) = currentTime t - 1"
    by (simp add: roundDouble_exact)
  with True assms show ?thesis
    by (simp add: clockTick_def tick_def Let_def inDeclaredBounds_def)
next
  case False
  with assms show ?thesis
    by (auto simp add: clockTick_def)
qed

lemma timeBound_step:
  assumes "inDeclaredBounds st" and "currentTime t \<le> 300" and "inBoundsEdit e"
  shows "inDeclaredBounds (fst (step (st, t) e)) \<and> currentTime (snd (step (st, t) e)) \<le> 300"
proof (cases e)
  case TickEv
  with assms show ?thesis by (simp add: timeBound_tick)
next
  case UpdateTickPendingEv
  with assms show ?thesis
    by (simp add: updateTimerToSettings_def inDeclaredBounds_def)
qed (use assms in \<open>simp_all add: inDeclaredBounds_def startTimer_def pauseTimer_def
  resetTimer_def clickNextWord_def nextWord_def toggleMode_def updateTimerToSettings_def
  onChangeTurnTime_def onChangeGuessTime_def onChangeSpecialTurnTime_def\<close>)

lemma timeBound_foldl:
  "inDeclaredBounds st \<Longrightarrow> currentTime t \<le> 300 \<Longrightarrow> list_all inBoundsEdit evs \<Longrightarrow>
     inDeclaredBounds (fst (foldl step (st, t) evs)) \<and>
     currentTime (snd (foldl step (st, t) evs)) \<le> 300"
proof (induction evs arbitrary: st t)
  case Nil
  then show ?case by simp
next
  case (Cons e evs)
  obtain st' t' where s: "step (st, t) e = (st', t')"
    by (cases "step (st, t) e")
  from Cons.prems have "inDeclaredBounds st' \<and> currentTime t' \<le> 300"
    using timeBound_step [of st t e] s by simp
  with Cons.prems show ?case
    using Cons.IH [of st' t'] s by simp
qed

lemma timeBound_run:
  "list_all inBoundsEdit evs \<Longrightarrow> currentTime (snd (run evs)) \<le> 300"
  unfolding run_def
  by (rule timeBound_foldl [THEN conjunct2])
    (simp_all add: inDeclaredBounds_def initialSettings_def initialTimer_def)

text \<open>
  C3 fails on the component. The turnTime input declares a maximum of 300, yet its handler
  stores any number that parseInt returns. With 18014398509481984 (2^54) typed into it,
  the update button pressed and the timer started, a tick computes 2^54 - 1, which no
  double holds and which rounds back to 2^54: the tick is processed, newTime is above 5,
  and the time left is not one less than before but the same. The countdown stands still.
\<close>

theorem tick_stuck_above_exact_range:
  "run [EditTurnTime ''18014398509481984'', UpdateEv, StartEv] =
     (initialSettings\<lparr>turnTime := 18014398509481984\<rparr>,
      initialTimer\<lparr>isRunning := True, currentTime := 18014398509481984\<rparr>) \<and>
   tick (initialSettings\<lparr>turnTime := 18014398509481984\<rparr>)
       (initialTimer\<lparr>isRunning := True, currentTime := 18014398509481984\<rparr>) =
     (initialTimer\<lparr>isRunning := True, currentTime := 18014398509481984\<rparr>, []) \<and>
   run [EditTurnTime ''18014398509481984'', UpdateEv, StartEv, TickEv] =
     run [EditTurnTime ''18014398509481984'', UpdateEv, StartEv] \<and>
   currentTime (snd (run [EditTurnTime ''18014398509481984'', UpdateEv, StartEv, TickEv])) \<noteq>
     18014398509481984 - 1"
  by (simp add: run_def onChangeTurnTime_def parseOr_def parseInt_2_54
      updateTimerToSettings_def startTimer_def clockTick_def tick_def
      roundDouble_below_2_54 initialTimer_def)

section \<open>Properties of the command handlers\<close>

text \<open>
  C9. pauseTimer only clears isRunning, so isFinished, currentTime, phase, mode and
  currentWord are kept, and pausing twice is the same as pausing once.
\<close>

theorem pause_idempotent:
  "pauseTimer (pauseTimer s) = pauseTimer s \<and>
   pauseTimer s = s\<lparr>isRunning := False\<rparr> \<and>
   isRunning (pauseTimer s) = False \<and>
   isFinished (pauseTimer s) = isFinished s \<and>
   currentTime (pauseTimer s) = currentTime s \<and>
   phase (pauseTimer s) = phase s \<and>
   mode (pauseTimer s) = mode s \<and>
   currentWord (pauseTimer s) = currentWord s"
  by (simp add: pauseTimer_def)

text \<open>
  C7. toggleMode flips the mode, sets the phase to Turn, stops the timer, clears
  isFinished, sets currentWord to 1 and sets the time left to the duration of the new mode
  (specialTurnTime on entering special mode, turnTime on entering regular mode). Two calls,
  whatever the settings at each, give back the first mode with those same forced values
  and the time left of that mode under the settings of the second call.
\<close>

theorem toggleMode_twice:
  "toggleMode st s =
     s\<lparr>mode := (if mode s = Regular then Special else Regular),
       currentTime := (if mode s = Regular then specialTurnTime st else turnTime st),
       phase := Turn, isRunning := False, isFinished := False, currentWord := 1\<rparr> \<and>
   mode (toggleMode st s) \<noteq> mode s \<and>
   mode (toggleMode st2 (toggleMode st1 s)) = mode s \<and>
   toggleMode st2 (toggleMode st1 s) =
     s\<lparr>currentTime := (if mode s = Special then specialTurnTime st2 else turnTime st2),
       phase := Turn, isRunning := False, isFinished := False, currentWord := 1\<rparr>"
  by (cases "mode s") (simp_all add: toggleMode_def)

text \<open>
  When the click comes on a render that is up to date, so that the state read and the
  state written are one, updateTimerToSettings sets the time left from the mode and the
  phase (specialTurnTime in special mode, turnTime in the regular turn phase, guessTime in
  the regular guess phase) and stops the timer. Whatever render it reads from, it keeps
  phase, mode, isFinished and currentWord of the state it writes onto. Paused in the
  regular turn phase with 40 seconds left, a turnTime of 90 makes the time left 90.
\<close>

lemma updateTimerToSettings_current_render:
  "updateTimerToSettings st s s =
     s\<lparr>currentTime := (case (mode s, phase s) of
                          (Special, _) \<Rightarrow> specialTurnTime st
                        | (Regular, Turn) \<Rightarrow> turnTime st
                        | (Regular, Guess) \<Rightarrow> guessTime st),
       isRunning := False\<rparr>"
  by (cases "mode s"; cases "phase s") (simp_all add: updateTimerToSettings_def)

lemma updateTimerToSettings_keeps:
  "isRunning (updateTimerToSettings st t s) = False"
  "phase (updateTimerToSettings st t s) = phase s"
  "mode (updateTimerToSettings st t s) = mode s"
  "isFinished (updateTimerToSettings st t s) = isFinished s"
  "currentWord (updateTimerToSettings st t s) = currentWord s"
  by (simp_all add: updateTimerToSettings_def)

lemma updateTimerToSettings_scenario:
  "updateTimerToSettings (st\<lparr>turnTime := 90\<rparr>)
       \<lparr>isRunning = False, currentTime = 40, phase = Turn, isFinished = f,
        mode = Regular, currentWord = w\<rparr>
       \<lparr>isRunning = False, currentTime = 40, phase = Turn, isFinished = f,
        mode = Regular, currentWord = w\<rparr> =
     \<lparr>isRunning = False, currentTime = 90, phase = Turn, isFinished = f,
      mode = Regular, currentWord = w\<rparr>"
  "foldl step (initialSettings, initialTimer\<lparr>currentTime := 40\<rparr>)
       [EditTurnTime ''90'', UpdateEv] =
     (initialSettings\<lparr>turnTime := 90\<rparr>, initialTimer\<lparr>currentTime := 90\<rparr>)"
proof -
  have "parseOr ''90'' 60 = 90"
    by (simp add: parseOr_def parseInt_def isWhiteSpace_def isRadixDigit_def digitValue_def
        digitsValue_def roundDouble_def)
  then show "foldl step (initialSettings, initialTimer\<lparr>currentTime := 40\<rparr>)
       [EditTurnTime ''90'', UpdateEv] =
     (initialSettings\<lparr>turnTime := 90\<rparr>, initialTimer\<lparr>currentTime := 90\<rparr>)"
    by (simp add: onChangeTurnTime_def updateTimerToSettings_def initialTimer_def)
qed (simp add: updateTimerToSettings_def)

lemma foldl_step_ticks: "foldl step (st, t) (replicate n TickEv) = (st, ticks n st t)"
  by (induction n arbitrary: t) simp_all

lemma last_second_of_turn:
  "run (StartEv # replicate 59 TickEv) =
     (initialSettings, initialTimer\<lparr>isRunning := True, currentTime := 1\<rparr>)"
proof -
  have "ticks 59 initialSettings (startTimer initialTimer) =
      (startTimer initialTimer)\<lparr>currentTime := 1\<rparr>"
    using ticks_countdown [of "startTimer initialTimer" 59 1 initialSettings]
    by (simp add: startTimer_def initialTimer_def)
  then show ?thesis
    by (simp add: run_def foldl_step_ticks startTimer_def initialTimer_def)
qed

text \<open>
  C8 fails on the component. The handler takes the mode and the phase from the render its
  button belongs to, not from the state its updater is given, as the tick handler does.
  Start the timer from the initial state and let 59 seconds pass: the render shows the
  regular turn phase, running, one second left. The sixtieth tick queues the change to the
  guess phase with 30 seconds; a click on the update button that is handled before that
  change is rendered reads the turn phase, takes turnTime, and writes it onto the state
  the tick has produced. The timer is left in the regular guess phase with 60 seconds, not
  the 30 of guessTime that the phase it is in calls for. Had the click come after the
  render, the time left would be 30.
\<close>

theorem update_reads_phase_of_stale_render:
  "run (StartEv # replicate 59 TickEv @ [UpdateTickPendingEv]) =
     (initialSettings, initialTimer\<lparr>currentTime := 60, phase := Guess\<rparr>) \<and>
   phase (snd (run (StartEv # replicate 59 TickEv @ [UpdateTickPendingEv]))) = Guess \<and>
   mode (snd (run (StartEv # replicate 59 TickEv @ [UpdateTickPendingEv]))) = Regular \<and>
   currentTime (snd (run (StartEv # replicate 59 TickEv @ [UpdateTickPendingEv]))) \<noteq>
     guessTime initialSettings \<and>
   run (StartEv # replicate 59 TickEv @ [TickEv, UpdateEv]) =
     (initialSettings, initialTimer\<lparr>currentTime := 30, phase := Guess\<rparr>)"
proof -
  have r: "run (evs @ evs') = foldl step (run evs) evs'" for evs evs'
    by (simp add: run_def)
  have a: "run ((StartEv # replicate 59 TickEv) @ [UpdateTickPendingEv]) =
      (initialSettings, initialTimer\<lparr>currentTime := 60, phase := Guess\<rparr>)"
    unfolding r last_second_of_turn
    by (simp add: updateTimerToSettings_def clockTick_def tick_def roundDouble_exact
        initialTimer_def initialSettings_def)
  have b: "run ((StartEv # replicate 59 TickEv) @ [TickEv, UpdateEv]) =
      (initialSettings, initialTimer\<lparr>currentTime := 30, phase := Guess\<rparr>)"
    unfolding r last_second_of_turn
    by (simp add: updateTimerToSettings_def clockTick_def tick_def roundDouble_exact
        initialTimer_def initialSettings_def)
  from a b show ?thesis
    by (simp add: initialSettings_def initialTimer_def)
qed

text \<open>
  C10. Only toggleMode writes the mode: the tick handler (armed or not), startTimer,
  pauseTimer, resetTimer, nextWord and updateTimerToSettings all keep it, and so does an
  edit of a settings input, which does not touch the timer. resetTimer and nextWord
  rewrite isRunning, currentTime, phase and isFinished (nextWord also currentWord) around
  the mode they keep.
\<close>

theorem mode_only_changed_by_toggleMode:
  "mode (fst (tick st s)) = mode s \<and>
   mode (fst (clockTick st s)) = mode s \<and>
   mode (ticks n st s) = mode s \<and>
   mode (startTimer s) = mode s \<and>
   mode (pauseTimer s) = mode s \<and>
   mode (resetTimer st s) = mode s \<and>
   mode (nextWord st s) = mode s \<and>
   mode (updateTimerToSettings st t s) = mode s \<and>
   resetTimer st s =
     s\<lparr>isRunning := False,
       currentTime := (if mode s = Special then specialTurnTime st else turnTime st),
       phase := Turn, isFinished := False\<rparr> \<and>
   nextWord st s =
     s\<lparr>isRunning := False, currentTime := specialTurnTime st, phase := Turn,
       isFinished := False,
       currentWord := (if currentWord s < 5 then currentWord s + 1 else 1)\<rparr> \<and>
   snd (step (st, s) (EditTurnTime v)) = s \<and>
   snd (step (st, s) (EditGuessTime v)) = s \<and>
   snd (step (st, s) (EditSpecialTurnTime v)) = s"
proof -
  have c: "mode (fst (clockTick st' s')) = mode s'" for st' s'
    by (simp add: clockTick_def tick_mode)
  have "mode (ticks n st s) = mode s"
    by (induction n arbitrary: s) (simp_all add: c)
  then show ?thesis
    by (simp add: tick_mode c startTimer_def pauseTimer_def resetTimer_def nextWord_def
        updateTimerToSettings_def)
qed

section \<open>The next-word button\<close>



lemma step_nextWord_special:
  "mode t = Special \<Longrightarrow> step (st, t) NextWordEv = (st, nextWord st t)"
  by (simp add: clickNextWord_def nextWordButtonShown_def)




section \<open>The settings inputs and the declared bounds\<close>

lemma parseInt_empty: "parseInt [] = None"
  by (simp add: parseInt_def)

lemma parseInt_5: "parseInt ''5'' = Some 5"
  by (simp add: parseInt_def isWhiteSpace_def isRadixDigit_def digitValue_def digitsValue_def
      roundDouble_def)

lemma parseInt_90: "parseInt ''90'' = Some 90"
  by (simp add: parseInt_def isWhiteSpace_def isRadixDigit_def digitValue_def digitsValue_def
      roundDouble_def)

lemma parseInt_minus_5: "parseInt ''-5'' = Some (- 5)"
  by (simp add: parseInt_def isWhiteSpace_def isRadixDigit_def digitValue_def digitsValue_def
      roundDouble_def)

text \<open>
  C5 as stated fails twice. With turnTime at 90, inside its bounds, emptying the input
  (the value is then the empty string, which parseInt turns into NaN) stores 60, the
  default written in the handler, and not the 90 that was there. And the input 5, below
  the declared minimum of 10, is stored as it is.
\<close>

theorem settings_edit_counterexample:
  "inDeclaredBounds (initialSettings\<lparr>turnTime := 90\<rparr>) \<and>
   parseInt [] = None \<and>
   turnTime (onChangeTurnTime [] (initialSettings\<lparr>turnTime := 90\<rparr>)) = 60 \<and>
   turnTime (onChangeTurnTime [] (initialSettings\<lparr>turnTime := 90\<rparr>)) \<noteq>
     turnTime (initialSettings\<lparr>turnTime := 90\<rparr>) \<and>
   inDeclaredBounds initialSettings \<and>
   onChangeTurnTime ''5'' initialSettings = initialSettings\<lparr>turnTime := 5\<rparr> \<and>
   \<not> inDeclaredBounds (onChangeTurnTime ''5'' initialSettings)"
  by (simp add: inDeclaredBounds_def initialSettings_def onChangeTurnTime_def parseOr_def
      parseInt_empty parseInt_5)

text \<open>
  C5, amended. An edit never fails and writes only its own setting. When parseInt gives
  NaN (an empty or non-numeric value) or zero, the handler stores the default written in
  it (60 for turnTime, 30 for guessTime, 45 for specialTurnTime), whatever the setting
  held before; when the value parses to a number inside the declared bounds of the
  setting, that number is stored. In both cases settings that were inside the declared
  bounds stay inside them, and zero is never stored.
\<close>

theorem settings_edit_default_fallback:
  "(parseInt v = None \<or> parseInt v = Some 0 \<longrightarrow>
      onChangeTurnTime v st = st\<lparr>turnTime := 60\<rparr> \<and>
      onChangeGuessTime v st = st\<lparr>guessTime := 30\<rparr> \<and>
      onChangeSpecialTurnTime v st = st\<lparr>specialTurnTime := 45\<rparr> \<and>
      (inDeclaredBounds st \<longrightarrow>
         inDeclaredBounds (onChangeTurnTime v st) \<and> inDeclaredBounds (onChangeGuessTime v st) \<and>
         inDeclaredBounds (onChangeSpecialTurnTime v st))) \<and>
   (parseInt v = Some n \<and> 10 \<le> n \<and> n \<le> 300 \<longrightarrow>
      onChangeTurnTime v st = st\<lparr>turnTime := n\<rparr> \<and>
      onChangeSpecialTurnTime v st = st\<lparr>specialTurnTime := n\<rparr> \<and>
      (inDeclaredBounds st \<longrightarrow>
         inDeclaredBounds (onChangeTurnTime v st) \<and>
         inDeclaredBounds (onChangeSpecialTurnTime v st))) \<and>
   (parseInt v = Some n \<and> 5 \<le> n \<and> n \<le> 120 \<longrightarrow>
      onChangeGuessTime v st = st\<lparr>guessTime := n\<rparr> \<and>
      (inDeclaredBounds st \<longrightarrow> inDeclaredBounds (onChangeGuessTime v st))) \<and>
   turnTime (onChangeTurnTime v st) \<noteq> 0 \<and>
   guessTime (onChangeGuessTime v st) \<noteq> 0 \<and>
   specialTurnTime (onChangeSpecialTurnTime v st) \<noteq> 0 \<and>
   guessTime (onChangeTurnTime v st) = guessTime st \<and>
   specialTurnTime (onChangeTurnTime v st) = specialTurnTime st \<and>
   turnTime (onChangeGuessTime v st) = turnTime st \<and>
   specialTurnTime (onChangeGuessTime v st) = specialTurnTime st \<and>
   turnTime (onChangeSpecialTurnTime v st) = turnTime st \<and>
   guessTime (onChangeSpecialTurnTime v st) = guessTime st"
  by (auto simp add: onChangeTurnTime_def onChangeGuessTime_def onChangeSpecialTurnTime_def
      parseOr_def inDeclaredBounds_def split: option.splits)

theorem settings_edit_default_fallback_witness:
  "onChangeTurnTime [] (initialSettings\<lparr>turnTime := 90\<rparr>) = initialSettings \<and>
   onChangeGuessTime [] (initialSettings\<lparr>guessTime := 20\<rparr>) = initialSettings \<and>
   onChangeSpecialTurnTime [] (initialSettings\<lparr>specialTurnTime := 50\<rparr>) = initialSettings \<and>
   onChangeTurnTime ''90'' initialSettings = initialSettings\<lparr>turnTime := 90\<rparr> \<and>
   inDeclaredBounds (onChangeTurnTime ''90'' initialSettings) \<and>
   onChangeGuessTime ''90'' initialSettings = initialSettings\<lparr>guessTime := 90\<rparr> \<and>
   inDeclaredBounds (onChangeGuessTime ''90'' initialSettings)"
proof -
  have n: "parseInt [] = None \<or> parseInt [] = Some 0"
    by (simp add: parseInt_empty)
  have p: "parseInt ''90'' = Some 90 \<and> (10::int) \<le> 90 \<and> (90::int) \<le> 300"
    by (simp add: parseInt_90)
  have q: "parseInt ''90'' = Some 90 \<and> (5::int) \<le> 90 \<and> (90::int) \<le> 120"
    by (simp add: parseInt_90)
  have b: "inDeclaredBounds initialSettings"
    by (simp add: inDeclaredBounds_def initialSettings_def)
  note d = settings_edit_default_fallback [THEN conjunct1, THEN mp, OF n]
  note t = settings_edit_default_fallback [THEN conjunct2, THEN conjunct1, THEN mp, OF p]
  note g = settings_edit_default_fallback [THEN conjunct2, THEN conjunct2, THEN conjunct1,
      THEN mp, OF q]
  have "onChangeTurnTime [] (initialSettings\<lparr>turnTime := 90\<rparr>) = initialSettings"
    using d [of "initialSettings\<lparr>turnTime := 90\<rparr>"] by (simp add: initialSettings_def)
  moreover have "onChangeGuessTime [] (initialSettings\<lparr>guessTime := 20\<rparr>) = initialSettings"
    using d [of "initialSettings\<lparr>guessTime := 20\<rparr>"] by (simp add: initialSettings_def)
  moreover have "onChangeSpecialTurnTime [] (initialSettings\<lparr>specialTurnTime := 50\<rparr>) =
      initialSettings"
    using d [of "initialSettings\<lparr>specialTurnTime := 50\<rparr>"] by (simp add: initialSettings_def)
  moreover have "onChangeTurnTime ''90'' initialSettings = initialSettings\<lparr>turnTime := 90\<rparr>"
    using t [of initialSettings] by blast
  moreover have "inDeclaredBounds (onChangeTurnTime ''90'' initialSettings)"
    using t [of initialSettings] b by blast
  moreover have "onChangeGuessTime ''90'' initialSettings = initialSettings\<lparr>guessTime := 90\<rparr>"
    using g [of initialSettings] by blast
  moreover have "inDeclaredBounds (onChangeGuessTime ''90'' initialSettings)"
    using g [of initialSettings] b by blast
  ultimately show ?thesis by blast
qed

section \<open>The invariant of the timer\<close>

lemma inDeclaredBounds_nonneg: "inDeclaredBounds st \<Longrightarrow> settingsNonneg st"
  by (simp add: inDeclaredBounds_def settingsNonneg_def)

text \<open>
  Under settings that are not negative, every handler keeps the invariant. The edits of
  the settings do not touch the timer.
\<close>

lemma timerInv_tick: "settingsNonneg st \<Longrightarrow> timerInv s \<Longrightarrow> timerInv (fst (clockTick st s))"
  using roundDouble_nonneg [of "currentTime s - 1"]
  by (auto simp add: settingsNonneg_def timerInv_def clockTick_def tick_def Let_def)

lemma timerInv_commands:
  assumes "settingsNonneg st" and "timerInv s"
  shows "timerInv (startTimer s)" and "timerInv (pauseTimer s)" and "timerInv (resetTimer st s)"
    and "timerInv (nextWord st s)" and "timerInv (toggleMode st s)"
    and "timerInv (updateTimerToSettings st t s)"
  using assms
  by (auto simp add: settingsNonneg_def timerInv_def startTimer_def pauseTimer_def
      resetTimer_def nextWord_def toggleMode_def updateTimerToSettings_def Let_def)

text \<open>
  Hence every state the component reaches from its initial state, through ticks, clicks
  and edits that store no negative duration, satisfies the invariant.
\<close>

lemma timerInv_step:
  assumes "settingsNonneg st" and "timerInv t" and "nonnegEdit e"
  shows "settingsNonneg (fst (step (st, t) e)) \<and> timerInv (snd (step (st, t) e))"
proof (cases e)
  case TickEv
  with assms show ?thesis by (simp add: timerInv_tick)
next
  case NextWordEv
  with assms show ?thesis by (simp add: clickNextWord_def timerInv_commands)
next
  case UpdateTickPendingEv
  with assms show ?thesis by (simp add: timerInv_tick timerInv_commands)
next
  case (EditTurnTime v)
  with assms show ?thesis by (simp add: settingsNonneg_def onChangeTurnTime_def)
next
  case (EditGuessTime v)
  with assms show ?thesis by (simp add: settingsNonneg_def onChangeGuessTime_def)
next
  case (EditSpecialTurnTime v)
  with assms show ?thesis by (simp add: settingsNonneg_def onChangeSpecialTurnTime_def)
qed (use assms in \<open>simp_all add: timerInv_commands\<close>)

lemma timerInv_foldl:
  "settingsNonneg st \<Longrightarrow> timerInv t \<Longrightarrow> list_all nonnegEdit evs \<Longrightarrow>
     settingsNonneg (fst (foldl step (st, t) evs)) \<and> timerInv (snd (foldl step (st, t) evs))"
proof (induction evs arbitrary: st t)
  case Nil
  then show ?case by simp
next
  case (Cons e evs)
  obtain st' t' where s: "step (st, t) e = (st', t')"
    by (cases "step (st, t) e")
  from Cons.prems have "settingsNonneg st' \<and> timerInv t'"
    using timerInv_step [of st t e] s by simp
  with Cons.prems show ?case
    using Cons.IH [of st' t'] s by simp
qed

lemma timerInv_run:
  "list_all nonnegEdit evs \<Longrightarrow> timerInv (snd (run evs))"
  unfolding run_def
  by (rule timerInv_foldl [THEN conjunct2])
    (simp_all add: settingsNonneg_def initialSettings_def timerInv_def initialTimer_def)

lemma timerInv_initial: "timerInv initialTimer \<and> inDeclaredBounds initialSettings"
  by (simp add: timerInv_def initialTimer_def inDeclaredBounds_def initialSettings_def)

text \<open>
  C4 fails on the component. The inputs declare a minimum of 10 for turnTime, yet the
  handler stores whatever parseInt returns unless it is NaN or zero. Typing -5 into the
  turnTime input and pressing the update button, from the initial state, leaves the timer
  with -5 seconds: the invariant held before and does not hold after.
\<close>

theorem invariant_broken_by_negative_setting:
  "timerInv initialTimer \<and>
   run [EditTurnTime ''-5'', UpdateEv] =
     (initialSettings\<lparr>turnTime := - 5\<rparr>, initialTimer\<lparr>currentTime := - 5\<rparr>) \<and>
   currentTime (snd (run [EditTurnTime ''-5'', UpdateEv])) < 0 \<and>
   \<not> timerInv (snd (run [EditTurnTime ''-5'', UpdateEv]))"
  by (simp add: run_def onChangeTurnTime_def parseOr_def parseInt_minus_5
      updateTimerToSettings_def timerInv_def initialTimer_def)

end
